theory Spec2Isabelle
  imports Main
begin

section \<open>JavaScript values\<close>

text \<open>
  The handlers read request bodies and provider responses that were parsed from JSON, and
  test them with \<^verbatim>\<open>!v\<close>, \<^verbatim>\<open>===\<close> and template strings. A value is one of the JSON shapes
  plus \<^verbatim>\<open>undefined\<close> (a field that is not there). Numbers are kept as integers: the code
  only tests a number for truthiness and for strict equality with a string literal, and a
  fractional number behaves like any non-zero integer there. An object is the list of its
  own fields, an array the list of its elements.
\<close>

datatype jsval =
    JUndefined
  | JNull
  | JBool bool
  | JNum int
  | JStr string
  | JArr "jsval list"
  | JObj "(string \<times> jsval) list"

text \<open>\<^verbatim>\<open>!v\<close> is \<open>\<not> truthy v\<close>.\<close>

fun truthy :: "jsval \<Rightarrow> bool" where
  "truthy JUndefined = False"
| "truthy JNull = False"
| "truthy (JBool b) = b"
| "truthy (JNum n) = (n \<noteq> 0)"
| "truthy (JStr s) = (s \<noteq> [])"
| "truthy (JArr xs) = True"
| "truthy (JObj fs) = True"

text \<open>Reading a field of an object literal; a missing field reads as \<^verbatim>\<open>undefined\<close>.\<close>

definition obj_get :: "(string \<times> jsval) list \<Rightarrow> string \<Rightarrow> jsval" where
  "obj_get fs k = (case map_of fs k of Some v \<Rightarrow> v | None \<Rightarrow> JUndefined)"

text \<open>
  \<^verbatim>\<open>v.k\<close> for a receiver that is neither \<^verbatim>\<open>undefined\<close> nor \<^verbatim>\<open>null\<close>: a primitive or an
  array has none of the fields the code asks for (\<^verbatim>\<open>call_id\<close>, \<^verbatim>\<open>call_status\<close>,
  \<^verbatim>\<open>direction\<close>, \<^verbatim>\<open>disconnection_reason\<close>, \<^verbatim>\<open>end_timestamp\<close>, \<^verbatim>\<open>transcript\<close> and the
  timestamps of the call data), so the read gives \<^verbatim>\<open>undefined\<close>.
\<close>

fun prop_of :: "jsval \<Rightarrow> string \<Rightarrow> jsval" where
  "prop_of (JObj fs) k = obj_get fs k"
| "prop_of v k = JUndefined"

datatype error =
    TypeError
  | SendFailed string
  | NoServiceConfigured

text \<open>\<^verbatim>\<open>v.k\<close> in general: on \<^verbatim>\<open>undefined\<close> and \<^verbatim>\<open>null\<close> JavaScript throws a TypeError.\<close>

definition get_prop :: "jsval \<Rightarrow> string \<Rightarrow> error + jsval" where
  "get_prop v k = (if v = JUndefined \<or> v = JNull then Inl TypeError else Inr (prop_of v k))"

text \<open>Decimal digits of a natural number, for \<^verbatim>\<open>String(n)\<close>.\<close>

fun show_nat :: "nat \<Rightarrow> string" where
  "show_nat n =
     (if n < 10 then [''0123456789'' ! n]
      else show_nat (n div 10) @ [''0123456789'' ! (n mod 10)])"

declare show_nat.simps [simp del]

text \<open>
  The string a value turns into inside a template string and as a property key
  (\<^verbatim>\<open>callMap[call_id]\<close>). The conversion of an object first asks for its \<^verbatim>\<open>toString\<close>: a
  parsed object that has a field of that name offers a value that is not a function, the
  inherited \<^verbatim>\<open>valueOf\<close> gives the object back, and the conversion throws a TypeError. Without
  such a field the inherited \<^verbatim>\<open>toString\<close> answers \<^verbatim>\<open>[object Object]\<close>. An array joins the
  strings of its elements with commas, \<^verbatim>\<open>null\<close> and \<^verbatim>\<open>undefined\<close> counting as empty, and throws
  when an element does.
\<close>

fun to_string :: "jsval \<Rightarrow> error + string"
  and join_elements :: "jsval list \<Rightarrow> error + string" where
  "to_string JUndefined = Inr ''undefined''"
| "to_string JNull = Inr ''null''"
| "to_string (JBool b) = Inr (if b then ''true'' else ''false'')"
| "to_string (JNum n) =
     Inr (if n < 0 then ''-'' @ show_nat (nat (- n)) else show_nat (nat n))"
| "to_string (JStr s) = Inr s"
| "to_string (JArr xs) = join_elements xs"
| "to_string (JObj fs) =
     (if map_of fs ''toString'' \<noteq> None then Inl TypeError else Inr ''[object Object]'')"
| "join_elements [] = Inr []"
| "join_elements (x # xs) =
     (case (if x = JUndefined \<or> x = JNull then Inr [] else to_string x) of
        Inl err \<Rightarrow> Inl err
      | Inr first \<Rightarrow>
          if xs = [] then Inr first
          else (case join_elements xs of
                  Inl err \<Rightarrow> Inl err
                | Inr rest \<Rightarrow> Inr (first @ '','' @ rest)))"

text \<open>Whether the conversion to a string returns.\<close>

definition converts :: "jsval \<Rightarrow> bool" where
  "converts v = (case to_string v of Inl err \<Rightarrow> False | Inr str \<Rightarrow> True)"

text \<open>
  A template string converts the embedded values one after the other and throws when one
  of them does not convert. The text of a \<^verbatim>\<open>console.log\<close> is not observed, so a log line is
  kept as the values it embeds.
\<close>

definition template :: "jsval list \<Rightarrow> error + unit" where
  "template vs = (if list_all converts vs then Inr () else Inl TypeError)"

section \<open>Configuration\<close>

text \<open>
  What \<^verbatim>\<open>parseInt\<close> makes of an environment variable: NaN when it is unset or does not start
  with digits, an integer, or an infinity for a digit string beyond the range of a double.
\<close>

datatype parsed = NaN | Finite int | PosInfinity | NegInfinity

text \<open>
  \<^verbatim>\<open>parseInt(process.env.X) || d\<close> takes the default for NaN and for \<open>0\<close>, and keeps every
  other value, negative and infinite ones too.
\<close>

definition parseInt_or :: "parsed \<Rightarrow> int \<Rightarrow> parsed" where
  "parseInt_or v d = (if v = NaN \<or> v = Finite 0 then Finite d else v)"

text \<open>
  \<^verbatim>\<open>config.call\<close> and \<^verbatim>\<open>config.email.service\<close> as the retrieval loop reads them, for a finite
  ceiling and delay.
\<close>

record config =
  maxRetries :: int
  retryDelay :: int
  service :: string

text \<open>
  The configuration loaded from \<^verbatim>\<open>MAX_TRANSCRIPT_RETRIES\<close>, \<^verbatim>\<open>RETRY_DELAY_MS\<close> and
  \<^verbatim>\<open>EMAIL_SERVICE\<close> (\<^verbatim>\<open>process.env.EMAIL_SERVICE || 'gmail'\<close>: the empty string is falsy). An
  infinite ceiling or delay has no place in the record, and \<open>None\<close> stands for it: under an
  infinite ceiling the test \<^verbatim>\<open>retryCount < maxRetries\<close> never fails.
\<close>

definition load_config :: "parsed \<Rightarrow> parsed \<Rightarrow> string option \<Rightarrow> config option" where
  "load_config max_env delay_env service_env =
     (case (parseInt_or max_env 5, parseInt_or delay_env 15000) of
        (Finite m, Finite d) \<Rightarrow>
          Some \<lparr> maxRetries = m, retryDelay = d,
                 service = (case service_env of None \<Rightarrow> ''gmail''
                            | Some sv \<Rightarrow> if sv = [] then ''gmail'' else sv) \<rparr>
      | _ \<Rightarrow> None)"

text \<open>
  \<^verbatim>\<open>backend/express.js\<close> has the same loop with the constants written in
  (\<^verbatim>\<open>maxRetries = 5\<close>, \<^verbatim>\<open>retryDelay = 15000\<close>) and Gmail as its only transport: it is the
  configured server under this configuration, which is also the one loaded from an empty
  environment.
\<close>

definition express_js_config :: config where
  "express_js_config = \<lparr> maxRetries = 5, retryDelay = 15000, service = ''gmail'' \<rparr>"

section \<open>The outside world\<close>

text \<open>A promise of the provider settles: it is rejected, or fulfilled with a value.\<close>

datatype settled = Rejected | Fulfilled jsval

datatype channel = SendGrid | Gmail | MailerSend

text \<open>
  A message is kept as the values its template embeds. A transcript message has the
  recipient, the salutation name, the transcript text, the call identifier and the
  provider's call data; the shorter failure notification has the recipient, the name and
  the call identifier.
\<close>

datatype mail =
    TranscriptMail jsval jsval string jsval jsval
  | ErrorMail jsval jsval jsval

text \<open>
  The stubs a run is given: what the \<open>n\<close>-th \<^verbatim>\<open>client.call.retrieve\<close> of a chain settles to
  (\<open>n\<close> from \<open>0\<close>), whether a send of a message on a transport resolves (\<open>True\<close>) or
  rejects (for the server, the call of \<^verbatim>\<open>sendEmailWithSendGrid\<close>, \<^verbatim>\<open>sendEmailWithGmail\<close> or
  \<^verbatim>\<open>transporter.sendMail\<close> with that message), what \<^verbatim>\<open>client.call.createPhoneCall\<close> settles to for a number, the clock's ISO
  string, and the host's \<^verbatim>\<open>JSON.stringify(v, null, 2)\<close>.
\<close>

record env =
  retrieve :: "nat \<Rightarrow> settled"
  sendMail :: "channel \<Rightarrow> mail \<Rightarrow> bool"
  createPhoneCall :: "string \<Rightarrow> settled"
  now :: string
  stringify :: "jsval \<Rightarrow> string"

text \<open>What a retrieval chain does, in the order it does it.\<close>

datatype event =
    Retrieve jsval
  | SetTimeout int
  | Send channel mail
  | ConsoleTranscript jsval jsval jsval string

section \<open>Transcript retrieval loop\<close>

text \<open>
  \<^verbatim>\<open>formatTranscript\<close>: a string as it is, an object or an array through
  \<^verbatim>\<open>JSON.stringify\<close>, and \<^verbatim>\<open>String(transcript)\<close> for what is left, a truthy boolean or
  number, whose conversion always returns.
\<close>

fun formatTranscript :: "env \<Rightarrow> jsval \<Rightarrow> string" where
  "formatTranscript e transcript =
     (if \<not> truthy transcript then ''No transcript available.''
      else case transcript of
             JStr s \<Rightarrow> s
           | JObj fs \<Rightarrow> stringify e transcript
           | JArr xs \<Rightarrow> stringify e transcript
           | _ \<Rightarrow> (case to_string transcript of Inr str \<Rightarrow> str | Inl err \<Rightarrow> []))"

text \<open>
  \<^verbatim>\<open>sendErrorEmail\<close> sends the failure notification through SendGrid when that is the
  configured service and through Gmail otherwise, inside a \<^verbatim>\<open>try\<close> whose \<^verbatim>\<open>catch\<close> only
  logs: whatever the send does, the function returns normally. The loop is a closure of
  \<^verbatim>\<open>getTranscriptAndSendEmail\<close>, which only the webhook handler calls, after its log line
  has converted the call identifier, the email and the name to strings (lemma
  \<open>started_chains_convert\<close> below); so the templates of the messages convert them again
  without throwing.
\<close>

definition error_channel :: "config \<Rightarrow> channel" where
  "error_channel cfg = (if service cfg = ''sendgrid'' then SendGrid else Gmail)"

definition sendErrorEmail :: "config \<Rightarrow> jsval \<Rightarrow> jsval \<Rightarrow> jsval \<Rightarrow> event list" where
  "sendErrorEmail cfg email name callId = [Send (error_channel cfg) (ErrorMail email name callId)]"

text \<open>
  The part of an attempt after a non-empty transcript has arrived: log it (service
  \<^verbatim>\<open>console\<close>) or send it; a send that throws lands in the attempt's \<^verbatim>\<open>catch\<close>, which
  sends the failure notification.
\<close>

definition deliver :: "config \<Rightarrow> env \<Rightarrow> jsval \<Rightarrow> jsval \<Rightarrow> jsval \<Rightarrow> jsval \<Rightarrow> jsval \<Rightarrow> event list" where
  "deliver cfg e callId email name transcript callResponse =
     (let formattedTranscript = formatTranscript e transcript in
      if service cfg = ''console'' then [ConsoleTranscript email name callId formattedTranscript]
      else
        let ch = (if service cfg = ''sendgrid'' then SendGrid else Gmail);
            m = TranscriptMail email name formattedTranscript callId callResponse
        in Send ch m # (if sendMail e ch m then [] else sendErrorEmail cfg email name callId))"

text \<open>
  \<^verbatim>\<open>attemptToGetTranscript\<close>, with the closure's \<^verbatim>\<open>retryCount\<close> as an argument. Every
  empty result increments the counter, so the counter is also the number of fetches the
  chain has made. The function returns the events of the attempt and of all attempts it
  schedules. The counter is a natural number; the source's is a double, which counts the
  same way up to \<open>2 ^ 53\<close> and stays there.
\<close>

function attemptToGetTranscript ::
  "config \<Rightarrow> env \<Rightarrow> jsval \<Rightarrow> jsval \<Rightarrow> jsval \<Rightarrow> nat \<Rightarrow> event list" where
  "attemptToGetTranscript cfg e callId email name retryCount =
     Retrieve callId #
     (case retrieve e retryCount of
        Rejected \<Rightarrow> sendErrorEmail cfg email name callId
      | Fulfilled callResponse \<Rightarrow>
          (case get_prop callResponse ''transcript'' of
             Inl err \<Rightarrow> sendErrorEmail cfg email name callId
           | Inr transcript \<Rightarrow>
               if \<not> truthy transcript \<or> transcript = JStr '''' then
                 (if int (Suc retryCount) < maxRetries cfg then
                    SetTimeout (retryDelay cfg) #
                    attemptToGetTranscript cfg e callId email name (Suc retryCount)
                  else sendErrorEmail cfg email name callId)
               else deliver cfg e callId email name transcript callResponse))"
  by pat_completeness auto

termination
  by (relation "measure (\<lambda>(cfg, e, callId, email, name, retryCount).
        nat (maxRetries cfg) - retryCount)") auto

declare attemptToGetTranscript.simps [simp del]

section \<open>Call registry and handlers\<close>

text \<open>
  A record of \<^verbatim>\<open>callMap\<close>. The form's fields are stored as they arrived; \<^verbatim>\<open>express.js\<close>
  stores no timestamp, which no handler reads.
\<close>

record user_info =
  info_email :: jsval
  info_name :: jsval
  info_phone :: jsval
  info_timestamp :: string

text \<open>
  The server's state between two turns of the event loop: the registry, keyed by the string
  of the call identifier, and the retrieval chains that have been started, as the
  arguments of their \<^verbatim>\<open>getTranscriptAndSendEmail\<close> call. Call identifiers are the
  provider's and are taken not to be names of \<^verbatim>\<open>Object.prototype\<close>, so that the plain
  object \<^verbatim>\<open>callMap\<close> is a map.
\<close>

record server =
  callMap :: "string \<rightharpoonup> user_info"
  pending :: "(jsval \<times> jsval \<times> jsval) list"

definition init_server :: server where
  "init_server = \<lparr> callMap = Map.empty, pending = [] \<rparr>"

record response =
  status :: nat
  json :: "(string \<times> jsval) list"

text \<open>
  \<^verbatim>\<open>getTranscriptAndSendEmail\<close> sets \<^verbatim>\<open>retryCount = 0\<close> and calls
  \<^verbatim>\<open>attemptToGetTranscript()\<close> without awaiting it, so its own promise is fulfilled as soon
  as the first attempt has reached its first \<^verbatim>\<open>await\<close>, the provider fetch. The handler
  that awaits it goes on before any fetch has settled: in the model the chain is recorded
  as started, and the handler is given no provider or transport stub at all. The default
  \<^verbatim>\<open>name = 'User'\<close> stands in for an \<^verbatim>\<open>undefined\<close> name.
\<close>

definition getTranscriptAndSendEmail ::
  "jsval \<Rightarrow> jsval \<Rightarrow> jsval \<Rightarrow> server \<Rightarrow> error + server" where
  "getTranscriptAndSendEmail callId email name s =
     Inr (s\<lparr>pending := pending s @
            [(callId, email, if name = JUndefined then JStr ''User'' else name)]\<rparr>)"

text \<open>The events of a started chain, once the event loop runs it against the stubs.\<close>

fun run_chain :: "config \<Rightarrow> env \<Rightarrow> jsval \<times> jsval \<times> jsval \<Rightarrow> event list" where
  "run_chain cfg e (callId, email, name) = attemptToGetTranscript cfg e callId email name 0"

text \<open>
  \<^verbatim>\<open>POST /api/initiate-call\<close>. After the check of the form everything is inside the
  \<^verbatim>\<open>try\<close>, whose \<^verbatim>\<open>catch\<close> answers 500: the number \<^verbatim>\<open>+91${phone}\<close>, the provider's call, the
  store under \<^verbatim>\<open>callMap[callId]\<close>, and after the store the log line that embeds the call
  identifier, the email and the name. When that line throws, the record is already
  stored.
\<close>

definition initiate_call :: "env \<Rightarrow> (string \<times> jsval) list \<Rightarrow> server \<Rightarrow> response \<times> server" where
  "initiate_call e body s =
     (let phone = obj_get body ''phone'';
          name = obj_get body ''name'';
          email = obj_get body ''email'';
          failed = \<lparr>status = 500, json = [(''error'', JStr ''Call initiation failed.'')]\<rparr>
      in
      if \<not> truthy phone \<or> \<not> truthy email then
        (\<lparr>status = 400, json = [(''error'', JStr ''Phone and email are required.'')]\<rparr>, s)
      else
        (case to_string phone of
           Inl err \<Rightarrow> (failed, s)
         | Inr digits \<Rightarrow>
             (case createPhoneCall e (''+91'' @ digits) of
                Rejected \<Rightarrow> (failed, s)
              | Fulfilled phoneCallResponse \<Rightarrow>
                  (case get_prop phoneCallResponse ''call_id'' of
                     Inl err \<Rightarrow> (failed, s)
                   | Inr callId \<Rightarrow>
                       (case to_string callId of
                          Inl err \<Rightarrow> (failed, s)
                        | Inr key \<Rightarrow>
                            let s' = s\<lparr>callMap := (callMap s)(key \<mapsto>
                                       \<lparr>info_email = email, info_name = name,
                                        info_phone = phone, info_timestamp = now e\<rparr>)\<rparr>
                            in
                            (case template [callId, email, name] of
                               Inl err \<Rightarrow> (failed, s')
                             | Inr u \<Rightarrow>
                                 (\<lparr>status = 200,
                                   json = [(''message'', JStr ''Call initiated successfully.''),
                                           (''callId'', callId)]\<rparr>,
                                  s')))))))"

text \<open>
  The body of the webhook handler's \<^verbatim>\<open>try\<close>: the \<^verbatim>\<open>switch\<close> on the event, with the log line
  each branch starts with. \<open>Inl\<close> is an exception, which the handler's \<^verbatim>\<open>catch\<close> turns into
  a 500; every statement that can throw comes before the first change of the state. A
  later log line that embeds only the call identifier, which has converted by then, is
  left out. The guard \<^verbatim>\<open>userInfo && userInfo.email\<close> fails on a missing record and on a record whose email
  is falsy; a record is an object, so \<^verbatim>\<open>if (callMap[call_id])\<close> holds exactly when there is
  one.
\<close>

definition webhook_switch ::
  "jsval \<Rightarrow> jsval \<Rightarrow> jsval \<Rightarrow> jsval \<Rightarrow> jsval \<Rightarrow> server \<Rightarrow> error + server" where
  "webhook_switch event call_id call_status disconnection_reason end_timestamp s =
     (if event = JStr ''call_started'' then
        (case template [call_id] of Inl err \<Rightarrow> Inl err | Inr u \<Rightarrow> Inr s)
      else if event = JStr ''call_ended'' then
        (case template [call_id, disconnection_reason] of
           Inl err \<Rightarrow> Inl err
         | Inr u \<Rightarrow>
             if call_status = JStr ''ended'' \<and> truthy end_timestamp then
               (case to_string call_id of
                  Inl err \<Rightarrow> Inl err
                | Inr key \<Rightarrow>
                    (case callMap s key of
                       None \<Rightarrow> Inr s
                     | Some userInfo \<Rightarrow>
                         if truthy (info_email userInfo) then
                           (case template [call_id, info_email userInfo, info_name userInfo] of
                              Inl err \<Rightarrow> Inl err
                            | Inr u \<Rightarrow>
                                (case getTranscriptAndSendEmail call_id (info_email userInfo)
                                        (info_name userInfo) s of
                                   Inl err \<Rightarrow> Inl err
                                 | Inr s' \<Rightarrow>
                                     Inr (s'\<lparr>callMap := (callMap s')(key := None)\<rparr>)))
                         else Inr s))
             else
               (case template [call_id, call_status, disconnection_reason] of
                  Inl err \<Rightarrow> Inl err
                | Inr u \<Rightarrow>
                    (case to_string call_id of
                       Inl err \<Rightarrow> Inl err
                     | Inr key \<Rightarrow>
                         if callMap s key \<noteq> None then
                           Inr (s\<lparr>callMap := (callMap s)(key := None)\<rparr>)
                         else Inr s)))
      else if event = JStr ''call_analyzed'' then
        (case template [call_id] of Inl err \<Rightarrow> Inl err | Inr u \<Rightarrow> Inr s)
      else
        (case template [event, call_id] of Inl err \<Rightarrow> Inl err | Inr u \<Rightarrow> Inr s))"

text \<open>
  \<^verbatim>\<open>POST /\<close>, the webhook. \<^verbatim>\<open>express.json()\<close> hands the handler an object as
  \<^verbatim>\<open>req.body\<close>. The payload check is \<^verbatim>\<open>!event || !call || !call.call_id\<close>; \<^verbatim>\<open>||\<close> stops at
  a falsy \<^verbatim>\<open>call\<close>, so \<^verbatim>\<open>call.call_id\<close> is only read from a truthy value.
\<close>

definition invalid_payload :: "(string \<times> jsval) list \<Rightarrow> bool" where
  "invalid_payload body =
     (let event = obj_get body ''event'';
          call = obj_get body ''call''
      in \<not> truthy event \<or> \<not> truthy call \<or> \<not> truthy (prop_of call ''call_id''))"

text \<open>
  After the check, and before the \<^verbatim>\<open>try\<close>, the handler logs the event, the call identifier,
  the status and the direction. An exception there is not caught by the handler: its
  promise is rejected (\<open>Inl\<close>), no answer comes from the handler, and the state is as it
  was. Inside the \<^verbatim>\<open>try\<close>, the answer 200 embeds the event once more.
\<close>

definition webhook :: "(string \<times> jsval) list \<Rightarrow> server \<Rightarrow> error + response \<times> server" where
  "webhook body s =
     (let event = obj_get body ''event'';
          call = obj_get body ''call''
      in
      if invalid_payload body then
        Inr (\<lparr>status = 400, json = [(''error'', JStr ''Invalid payload structure'')]\<rparr>, s)
      else
        let call_id = prop_of call ''call_id'';
            call_status = prop_of call ''call_status'';
            direction = prop_of call ''direction'';
            disconnection_reason = prop_of call ''disconnection_reason'';
            end_timestamp = prop_of call ''end_timestamp'';
            failed = \<lparr>status = 500,
                      json = [(''error'', JStr ''Internal server error''), (''call_id'', call_id)]\<rparr>
        in
        (case template [event, call_id, call_status, direction] of
           Inl err \<Rightarrow> Inl err
         | Inr u \<Rightarrow>
             (case webhook_switch event call_id call_status disconnection_reason
                     end_timestamp s of
                Inl err \<Rightarrow> Inr (failed, s)
              | Inr s' \<Rightarrow>
                  (case to_string event of
                     Inl err \<Rightarrow> Inr (failed, s')
                   | Inr event_name \<Rightarrow>
                       Inr (\<lparr>status = 200,
                             json = [(''success'', JBool True),
                                     (''message'',
                                      JStr (''Webhook processed for event: '' @ event_name))]\<rparr>,
                            s')))))"

text \<open>
  The states the server can be in: it starts empty, and each turn is an initiation
  request, a webhook request that the handler answers (one it does not answer leaves the
  state as it was), or the event loop running the started chains, which touches no
  registry entry.
\<close>

inductive reachable :: "server \<Rightarrow> bool" where
  start: "reachable init_server"
| initiated: "reachable s \<Longrightarrow> reachable (snd (initiate_call e body s))"
| notified: "reachable s \<Longrightarrow> webhook body s = Inr (r, s') \<Longrightarrow> reachable s'"
| drained: "reachable s \<Longrightarrow> reachable (s\<lparr>pending := []\<rparr>)"

section \<open>Email service\<close>

text \<open>
  The \<^verbatim>\<open>EmailService\<close> instance: whether its constructor set up the MailerSend client (the
  primary transport) and the Gmail transporter (the backup).
\<close>

record email_service =
  mailerSend :: bool
  gmailTransporter :: bool

text \<open>
  The constructor sets up MailerSend under
  \<^verbatim>\<open>config.email.mailerSendApiKey && config.email.service === 'mailersend'\<close> and Gmail under
  \<^verbatim>\<open>config.email.gmail.password\<close>.
\<close>

definition new_EmailService :: "jsval \<Rightarrow> string \<Rightarrow> jsval \<Rightarrow> email_service" where
  "new_EmailService mailerSendApiKey email_service_name gmail_password =
     \<lparr> mailerSend = (truthy mailerSendApiKey \<and> email_service_name = ''mailersend''),
       gmailTransporter = truthy gmail_password \<rparr>"

text \<open>
  The exported instance \<^verbatim>\<open>emailService\<close>. The \<^verbatim>\<open>config.email\<close> of the environment module has
  no \<^verbatim>\<open>mailerSendApiKey\<close>, so the key reads as \<^verbatim>\<open>undefined\<close>; the service name and the Gmail
  password come from \<^verbatim>\<open>EMAIL_SERVICE\<close> and \<^verbatim>\<open>GMAIL_PASS\<close>.
\<close>

definition emailService :: "string \<Rightarrow> jsval \<Rightarrow> email_service" where
  "emailService email_service_name gmail_password =
     new_EmailService JUndefined email_service_name gmail_password"

text \<open>\<^verbatim>\<open>x ? f(x) : 'N/A'\<close> and \<^verbatim>\<open>x || 'text'\<close> convert \<^verbatim>\<open>x\<close> only when it is truthy.\<close>

definition when_truthy :: "jsval \<Rightarrow> jsval list" where
  "when_truthy v = (if truthy v then [v] else [])"

text \<open>
  \<^verbatim>\<open>sendErrorNotification\<close>: inside its \<^verbatim>\<open>try\<close>, the template with the name and the call
  identifier, then one send through MailerSend if it is there, else through Gmail if it is
  there, else none; its \<^verbatim>\<open>catch\<close> only logs, so it returns normally.
\<close>

definition sendErrorNotification ::
  "email_service \<Rightarrow> jsval \<Rightarrow> jsval \<Rightarrow> jsval \<Rightarrow> event list" where
  "sendErrorNotification svc recipientEmail recipientName callId =
     (case template [recipientName, callId] of
        Inl err \<Rightarrow> []
      | Inr u \<Rightarrow>
          if mailerSend svc then
            [Send MailerSend (ErrorMail recipientEmail recipientName callId)]
          else if gmailTransporter svc then
            [Send Gmail (ErrorMail recipientEmail recipientName callId)]
          else [])"

text \<open>
  Before its \<^verbatim>\<open>try\<close>, \<^verbatim>\<open>sendTranscriptEmail\<close> computes the duration from \<^verbatim>\<open>duration_ms\<close> and
  the dates from the two timestamps, and builds the HTML, which embeds the name, the
  disconnection reason, the call identifier and
  \<^verbatim>\<open>transcript || 'No transcript available'\<close>. Each of these conversions throws for the
  values whose string conversion throws. These are the values converted, and the text the
  transcript becomes.
\<close>

definition embedded_values :: "jsval \<Rightarrow> jsval \<Rightarrow> jsval \<Rightarrow> jsval \<Rightarrow> jsval list" where
  "embedded_values recipientName transcript callId callData =
     when_truthy (prop_of callData ''duration_ms'')
     @ when_truthy (prop_of callData ''start_timestamp'')
     @ when_truthy (prop_of callData ''end_timestamp'')
     @ [recipientName]
     @ when_truthy (prop_of callData ''disconnection_reason'')
     @ [callId]
     @ when_truthy transcript"

definition transcript_text :: "jsval \<Rightarrow> string" where
  "transcript_text transcript =
     (if truthy transcript then
        (case to_string transcript of Inr str \<Rightarrow> str | Inl err \<Rightarrow> [])
      else ''No transcript available'')"

text \<open>
  \<^verbatim>\<open>sendTranscriptEmail\<close>. The result is what the caller sees (\<open>Inl\<close>: the promise is
  rejected with that error) and the sends made, in order. An exception before the \<^verbatim>\<open>try\<close>,
  from \<^verbatim>\<open>callData.call_id\<close> or from a conversion, goes to the caller with nothing sent.
\<close>

definition sendTranscriptEmail ::
  "email_service \<Rightarrow> env \<Rightarrow> jsval \<Rightarrow> jsval \<Rightarrow> jsval \<Rightarrow> jsval \<Rightarrow> (error + unit) \<times> event list" where
  "sendTranscriptEmail svc e recipientEmail recipientName transcript callData =
     (case get_prop callData ''call_id'' of
        Inl err \<Rightarrow> (Inl err, [])
      | Inr callId \<Rightarrow>
          (case template (embedded_values recipientName transcript callId callData) of
             Inl err \<Rightarrow> (Inl err, [])
           | Inr u \<Rightarrow>
               let m = TranscriptMail recipientEmail recipientName
                         (transcript_text transcript) callId callData;
                   tried =
                     (if mailerSend svc then
                        (if sendMail e MailerSend m then Inr ()
                         else Inl (SendFailed ''MailerSend''),
                         [Send MailerSend m])
                      else if gmailTransporter svc then
                        (if sendMail e Gmail m then Inr () else Inl (SendFailed ''Gmail''),
                         [Send Gmail m])
                      else (Inl NoServiceConfigured, []))
               in
               (case fst tried of
                  Inr sent \<Rightarrow> (Inr (), snd tried)
                | Inl err \<Rightarrow>
                    if mailerSend svc \<and> gmailTransporter svc \<and> sendMail e Gmail m then
                      (Inr (), snd tried @ [Send Gmail m])
                    else
                      (Inl err,
                       snd tried
                       @ (if mailerSend svc \<and> gmailTransporter svc then [Send Gmail m]
                          else [])
                       @ sendErrorNotification svc recipientEmail recipientName callId))))"

section \<open>Reading a chain's events\<close>

text \<open>
  The loop asks for another attempt when \<^verbatim>\<open>!callResponse.transcript ||
  callResponse.transcript === ''\<close>: the fetch was fulfilled with a response whose transcript
  is absent, empty, or any other falsy value.
\<close>

definition no_transcript :: "settled \<Rightarrow> bool" where
  "no_transcript r =
     (case r of
        Rejected \<Rightarrow> False
      | Fulfilled callResponse \<Rightarrow>
          (case get_prop callResponse ''transcript'' of
             Inl err \<Rightarrow> False
           | Inr transcript \<Rightarrow> \<not> truthy transcript \<or> transcript = JStr ''''))"

fun is_fetch :: "event \<Rightarrow> bool" where
  "is_fetch (Retrieve callId) = True"
| "is_fetch ev = False"

fun is_failure_notification :: "event \<Rightarrow> bool" where
  "is_failure_notification (Send ch (ErrorMail email name callId)) = True"
| "is_failure_notification ev = False"


fun is_send_on :: "channel \<Rightarrow> event \<Rightarrow> bool" where
  "is_send_on c (Send ch m) = (ch = c)"
| "is_send_on c ev = False"

definition fetch_count :: "event list \<Rightarrow> nat" where
  "fetch_count evs = length (filter is_fetch evs)"

definition failure_notifications :: "event list \<Rightarrow> nat" where
  "failure_notifications evs = length (filter is_failure_notification evs)"


text \<open>\<open>n\<close> rounds of a fetch that finds nothing and the timer set after it.\<close>

definition waiting_rounds :: "config \<Rightarrow> jsval \<Rightarrow> nat \<Rightarrow> event list" where
  "waiting_rounds cfg callId n =
     concat (replicate n [Retrieve callId, SetTimeout (retryDelay cfg)])"

section \<open>Sample data\<close>

text \<open>
  A provider whose transcript is ready from the \<open>k\<close>-th fetch on (never, for \<open>k = 0\<close>),
  with transports that all accept or all reject.
\<close>

definition ready_response :: jsval where
  "ready_response = JObj [(''call_id'', JStr ''call_1''), (''transcript'', JStr ''Agent: hello'')]"

definition pending_response :: jsval where
  "pending_response = JObj [(''call_id'', JStr ''call_1''), (''transcript'', JStr '''')]"

definition stub_env :: "nat \<Rightarrow> bool \<Rightarrow> env" where
  "stub_env k mail_ok =
     \<lparr> retrieve = (\<lambda>n. if 0 < k \<and> k \<le> Suc n then Fulfilled ready_response
                      else Fulfilled pending_response),
       sendMail = (\<lambda>ch m. mail_ok),
       createPhoneCall = (\<lambda>to_number. Fulfilled (JObj [(''call_id'', JStr ''call_1'')])),
       now = ''2025-01-01T00:00:00.000Z'',
       stringify = (\<lambda>v. ''{}'') \<rparr>"

text \<open>A provider whose fetch throws.\<close>

definition broken_env :: env where
  "broken_env = (stub_env 0 True)\<lparr>retrieve := (\<lambda>n. Rejected)\<rparr>"

text \<open>
  Transports of which only Gmail accepts: the transcript is there on the first fetch, and
  SendGrid and MailerSend reject every message.
\<close>

definition gmail_only_env :: env where
  "gmail_only_env = (stub_env 1 True)\<lparr>sendMail := (\<lambda>ch m. ch = Gmail)\<rparr>"

text \<open>The server configured with \<^verbatim>\<open>EMAIL_SERVICE=sendgrid\<close> and nothing else.\<close>

definition sendgrid_config :: config where
  "sendgrid_config = \<lparr> maxRetries = 5, retryDelay = 15000, service = ''sendgrid'' \<rparr>"

definition ann_form :: "(string \<times> jsval) list" where
  "ann_form = [(''name'', JStr ''Ann''), (''phone'', JStr ''9998887776''),
               (''email'', JStr ''ann@x.com'')]"

definition ann_info :: user_info where
  "ann_info = \<lparr> info_email = JStr ''ann@x.com'', info_name = JStr ''Ann'',
                info_phone = JStr ''9998887776'', info_timestamp = ''2025-01-01T00:00:00.000Z'' \<rparr>"

definition ann_registered :: server where
  "ann_registered = \<lparr> callMap = [''call_1'' \<mapsto> ann_info], pending = [] \<rparr>"

text \<open>
  A \<^verbatim>\<open>call_ended\<close> event for Ann's call, with the status and the disconnection reason as
  given.
\<close>

definition call_ended_body :: "jsval \<Rightarrow> jsval \<Rightarrow> (string \<times> jsval) list" where
  "call_ended_body call_status disconnection_reason =
     [(''event'', JStr ''call_ended''),
      (''call'', JObj [(''call_id'', JStr ''call_1''), (''call_status'', call_status),
                       (''direction'', JStr ''outbound''),
                       (''disconnection_reason'', disconnection_reason),
                       (''end_timestamp'', JNum 1735689600000)])]"

text \<open>The parsed JSON object \<^verbatim>\<open>{"toString": 1}\<close>, whose string conversion throws.\<close>

definition odd_object :: jsval where
  "odd_object = JObj [(''toString'', JNum 1)]"

section \<open>One attempt of the loop\<close>

lemma attempt_again:
  assumes "no_transcript (retrieve e i)" "int (Suc i) < maxRetries cfg"
  shows "attemptToGetTranscript cfg e callId email name i =
         Retrieve callId # SetTimeout (retryDelay cfg) #
         attemptToGetTranscript cfg e callId email name (Suc i)"
  using assms
  by (subst attemptToGetTranscript.simps)
     (auto simp: no_transcript_def split: settled.splits sum.splits)

lemma attempt_exhausted:
  assumes "no_transcript (retrieve e i)" "\<not> int (Suc i) < maxRetries cfg"
  shows "attemptToGetTranscript cfg e callId email name i =
         Retrieve callId # sendErrorEmail cfg email name callId"
  using assms
  by (subst attemptToGetTranscript.simps)
     (auto simp: no_transcript_def split: settled.splits sum.splits)

lemma attempt_rejected:
  assumes "retrieve e i = Rejected"
  shows "attemptToGetTranscript cfg e callId email name i =
         Retrieve callId # sendErrorEmail cfg email name callId"
  using assms by (subst attemptToGetTranscript.simps) simp

lemma attempt_ready:
  assumes "retrieve e i = Fulfilled callResponse"
    "get_prop callResponse ''transcript'' = Inr transcript" "truthy transcript"
  shows "attemptToGetTranscript cfg e callId email name i =
         Retrieve callId # deliver cfg e callId email name transcript callResponse"
  using assms by (subst attemptToGetTranscript.simps) auto

lemma waiting_rounds_Suc:
  "waiting_rounds cfg callId (Suc n) =
   Retrieve callId # SetTimeout (retryDelay cfg) # waiting_rounds cfg callId n"
  by (simp add: waiting_rounds_def)

text \<open>
  While the fetches find nothing and the budget is not used up, the chain is a run of
  waiting rounds followed by the attempt it has reached.
\<close>

lemma attempt_waits:
  assumes "\<And>n. i \<le> n \<Longrightarrow> n < i + d \<Longrightarrow> no_transcript (retrieve e n)"
    and "0 < d \<Longrightarrow> int (i + d) < maxRetries cfg"
  shows "attemptToGetTranscript cfg e callId email name i =
         waiting_rounds cfg callId d @ attemptToGetTranscript cfg e callId email name (i + d)"
  using assms
proof (induction d arbitrary: i)
  case 0
  then show ?case by (simp add: waiting_rounds_def)
next
  case (Suc d)
  have step: "attemptToGetTranscript cfg e callId email name i =
         Retrieve callId # SetTimeout (retryDelay cfg) #
         attemptToGetTranscript cfg e callId email name (Suc i)"
    using Suc.prems by (intro attempt_again) auto
  have rest: "attemptToGetTranscript cfg e callId email name (Suc i) =
         waiting_rounds cfg callId d @ attemptToGetTranscript cfg e callId email name (Suc i + d)"
    using Suc.prems by (intro Suc.IH) auto
  show ?case by (simp add: step rest waiting_rounds_Suc)
qed

lemma fetch_count_waiting:
  "fetch_count (waiting_rounds cfg callId n @ evs) = n + fetch_count evs"
  by (induction n) (simp_all add: waiting_rounds_def fetch_count_def)

lemma failure_notifications_waiting:
  "failure_notifications (waiting_rounds cfg callId n @ evs) = failure_notifications evs"
  by (induction n) (simp_all add: waiting_rounds_def failure_notifications_def)


section \<open>String conversion and log lines\<close>

lemma converts_iff: "converts v = (\<exists>str. to_string v = Inr str)"
  by (cases "to_string v") (simp_all add: converts_def)

lemma to_string_converts: "to_string v = Inr str \<Longrightarrow> converts v"
  by (simp add: converts_def)

lemma template_returns: "(template vs = Inr u) = list_all converts vs"
  by (simp add: template_def)

lemma converts_string [simp]: "converts (JStr str)"
  by (simp add: converts_def)

lemma converts_undefined [simp]: "converts JUndefined"
  by (simp add: converts_def)

lemma falsy_converts: "\<not> truthy v \<Longrightarrow> converts v"
  by (cases v) (simp_all add: converts_def)

lemma odd_object_throws: "\<not> converts odd_object"
  by (simp add: converts_def odd_object_def)

section \<open>The switch of the webhook handler\<close>

text \<open>
  On \<^verbatim>\<open>call_ended\<close>, for a call identifier whose string is \<open>key\<close>: the first log line, then
  the completed call with its record, or the clean-up of any other call.
\<close>

lemma switch_call_ended:
  assumes "to_string call_id = Inr key"
  shows "webhook_switch (JStr ''call_ended'') call_id call_status disconnection_reason
           end_timestamp s =
     (if \<not> converts disconnection_reason then Inl TypeError
      else if call_status = JStr ''ended'' \<and> truthy end_timestamp then
        (case callMap s key of
           None \<Rightarrow> Inr s
         | Some userInfo \<Rightarrow>
             if \<not> truthy (info_email userInfo) then Inr s
             else if converts (info_email userInfo) \<and> converts (info_name userInfo) then
               Inr \<lparr>callMap = (callMap s)(key := None),
                    pending = pending s @
                      [(call_id, info_email userInfo,
                        if info_name userInfo = JUndefined then JStr ''User''
                        else info_name userInfo)]\<rparr>
             else Inl TypeError)
      else if converts call_status then Inr (s\<lparr>callMap := (callMap s)(key := None)\<rparr>)
      else Inl TypeError)"
proof -
  have c: "converts call_id" using assms by (rule to_string_converts)
  have same: "callMap s key = None \<Longrightarrow> s\<lparr>callMap := (callMap s)(key := None)\<rparr> = s"
    by (cases s) (simp add: fun_upd_idem)
  show ?thesis
    using assms c same
    by (auto simp add: webhook_switch_def template_def getTranscriptAndSendEmail_def
        split: option.splits)
qed

lemma switch_other_event:
  assumes "event \<noteq> JStr ''call_ended''" "converts event" "converts call_id"
  shows "webhook_switch event call_id call_status disconnection_reason end_timestamp s = Inr s"
  using assms by (simp add: webhook_switch_def template_def)

section \<open>Facts about the handlers\<close>

text \<open>
  The answer of the webhook for a body that passes the payload check and whose first log
  line returns.
\<close>

lemma webhook_answer:
  assumes "\<not> invalid_payload body"
    and "event = obj_get body ''event''" and "call = obj_get body ''call''"
    and "template [event, prop_of call ''call_id'', prop_of call ''call_status'',
           prop_of call ''direction''] = Inr ()"
    and "to_string event = Inr event_name"
  shows "webhook body s =
     (case webhook_switch event (prop_of call ''call_id'') (prop_of call ''call_status'')
             (prop_of call ''disconnection_reason'') (prop_of call ''end_timestamp'') s of
        Inl err \<Rightarrow>
          Inr (\<lparr>status = 500,
                json = [(''error'', JStr ''Internal server error''),
                        (''call_id'', prop_of call ''call_id'')]\<rparr>, s)
      | Inr s' \<Rightarrow>
          Inr (\<lparr>status = 200,
                json = [(''success'', JBool True),
                        (''message'', JStr (''Webhook processed for event: '' @ event_name))]\<rparr>,
               s'))"
  using assms by (simp add: webhook_def Let_def split: sum.splits)

lemma webhook_unanswered:
  assumes "\<not> invalid_payload body"
    and "event = obj_get body ''event''" and "call = obj_get body ''call''"
    and "template [event, prop_of call ''call_id'', prop_of call ''call_status'',
           prop_of call ''direction''] \<noteq> Inr ()"
  shows "webhook body s = Inl TypeError"
  using assms by (auto simp add: webhook_def Let_def template_def split: sum.splits)

text \<open>
  The registry gains entries in the initiation handler only, behind the check
  \<^verbatim>\<open>!phone || !email\<close>, and the webhook only removes entries. A chain is started only after
  the log line that converts its three arguments.
\<close>

lemma initiate_keeps_emails:
  assumes "\<And>k u. callMap s k = Some u \<Longrightarrow> truthy (info_email u)"
    and "callMap (snd (initiate_call e body s)) k = Some u"
  shows "truthy (info_email u)"
  using assms
  by (auto simp add: initiate_call_def Let_def split: if_splits settled.splits sum.splits)

lemma initiate_keeps_pending: "pending (snd (initiate_call e body s)) = pending s"
  by (auto simp add: initiate_call_def Let_def split: if_splits settled.splits sum.splits)

lemma switch_keeps_entries:
  assumes "webhook_switch event call_id call_status disconnection_reason end_timestamp s = Inr s'"
    and "callMap s' k = Some u"
  shows "callMap s k = Some u"
  using assms
  by (auto simp add: webhook_switch_def getTranscriptAndSendEmail_def
      split: if_splits option.splits sum.splits)

lemma webhook_keeps_entries:
  assumes "webhook body s = Inr (r, s')" and "callMap s' k = Some u"
  shows "callMap s k = Some u"
  using assms
  by (auto simp add: webhook_def Let_def split: if_splits sum.splits dest: switch_keeps_entries)

lemma switch_starts_converted:
  assumes "webhook_switch event call_id call_status disconnection_reason end_timestamp s = Inr s'"
    and "(c, em, nm) \<in> set (pending s')"
  shows "(c, em, nm) \<in> set (pending s) \<or> (converts c \<and> converts em \<and> converts nm)"
  using assms
  by (auto simp add: webhook_switch_def getTranscriptAndSendEmail_def template_def
      split: if_splits option.splits sum.splits)

lemma webhook_starts_converted:
  assumes "webhook body s = Inr (r, s')" and "(c, em, nm) \<in> set (pending s')"
  shows "(c, em, nm) \<in> set (pending s) \<or> (converts c \<and> converts em \<and> converts nm)"
  using assms
  by (auto simp add: webhook_def Let_def split: if_splits sum.splits
      dest: switch_starts_converted)

lemma reachable_emails:
  assumes "reachable s"
  shows "callMap s k = Some u \<Longrightarrow> truthy (info_email u)"
  using assms
proof (induction arbitrary: k u rule: reachable.induct)
  case start
  then show ?case by (simp add: init_server_def)
next
  case (initiated s e body)
  then show ?case using initiate_keeps_emails by blast
next
  case (notified s body r s')
  then show ?case using webhook_keeps_entries by blast
next
  case (drained s)
  then show ?case by simp
qed

text \<open>The arguments of every started chain convert to strings.\<close>

lemma started_chains_convert:
  assumes "reachable s"
  shows "(c, em, nm) \<in> set (pending s) \<Longrightarrow> converts c \<and> converts em \<and> converts nm"
  using assms
proof (induction arbitrary: c em nm rule: reachable.induct)
  case start
  then show ?case by (simp add: init_server_def)
next
  case (initiated s e body)
  then show ?case by (simp add: initiate_keeps_pending)
next
  case (notified s body r s')
  then show ?case using webhook_starts_converted by blast
next
  case (drained s)
  then show ?case by simp
qed

section \<open>Facts about the sample data\<close>

lemma default_config: "load_config NaN NaN None = Some express_js_config"
  by (simp add: load_config_def parseInt_or_def express_js_config_def)

lemma stub_never_ready: "no_transcript (retrieve (stub_env 0 ok) n)"
  by (simp add: stub_env_def no_transcript_def pending_response_def get_prop_def obj_get_def)

lemma stub_retrieve:
  "retrieve (stub_env k ok) n =
     (if 0 < k \<and> k \<le> Suc n then Fulfilled ready_response else Fulfilled pending_response)"
  by (simp add: stub_env_def)

lemma stub_sendMail: "sendMail (stub_env k ok) ch m = ok"
  by (simp add: stub_env_def)

lemma gmail_only_sendMail: "sendMail gmail_only_env ch m = (ch = Gmail)"
  by (simp add: gmail_only_env_def)

lemma gmail_only_retrieve: "retrieve gmail_only_env 0 = Fulfilled ready_response"
  by (simp add: gmail_only_env_def stub_env_def)


lemma ready_transcript: "get_prop ready_response ''transcript'' = Inr (JStr ''Agent: hello'')"
  by (simp add: ready_response_def get_prop_def obj_get_def)

lemma ready_call_id: "get_prop ready_response ''call_id'' = Inr (JStr ''call_1'')"
  by (simp add: ready_response_def get_prop_def obj_get_def)

lemma ready_embedded:
  "template (embedded_values (JStr ''Ann'') (JStr ''Agent: hello'') (JStr ''call_1'')
     ready_response) = Inr ()"
  by (simp add: embedded_values_def when_truthy_def ready_response_def obj_get_def
      template_def)

lemma express_js_fields:
  "maxRetries express_js_config = 5" "retryDelay express_js_config = 15000"
  "service express_js_config = ''gmail''" "error_channel express_js_config = Gmail"
  by (simp_all add: express_js_config_def error_channel_def)

lemma sendgrid_loaded: "load_config NaN NaN (Some ''sendgrid'') = Some sendgrid_config"
  by (simp add: load_config_def parseInt_or_def sendgrid_config_def)

lemma sendgrid_fields:
  "service sendgrid_config = ''sendgrid''" "error_channel sendgrid_config = SendGrid"
  by (simp_all add: sendgrid_config_def error_channel_def)

lemma call_ended_body_fields:
  "obj_get (call_ended_body st dr) ''event'' = JStr ''call_ended''"
  "obj_get (call_ended_body st dr) ''call'' =
     JObj [(''call_id'', JStr ''call_1''), (''call_status'', st),
           (''direction'', JStr ''outbound''), (''disconnection_reason'', dr),
           (''end_timestamp'', JNum 1735689600000)]"
  by (simp_all add: call_ended_body_def obj_get_def)

lemma call_ended_call_fields:
  "prop_of (obj_get (call_ended_body st dr) ''call'') ''call_id'' = JStr ''call_1''"
  "prop_of (obj_get (call_ended_body st dr) ''call'') ''call_status'' = st"
  "prop_of (obj_get (call_ended_body st dr) ''call'') ''direction'' = JStr ''outbound''"
  "prop_of (obj_get (call_ended_body st dr) ''call'') ''disconnection_reason'' = dr"
  "prop_of (obj_get (call_ended_body st dr) ''call'') ''end_timestamp'' = JNum 1735689600000"
  by (simp_all add: call_ended_body_fields) (simp_all add: obj_get_def)

lemma call_ended_body_valid: "\<not> invalid_payload (call_ended_body st dr)"
  by (simp add: invalid_payload_def call_ended_body_fields [of st dr] Let_def)
     (simp add: obj_get_def)

lemma ann_initiated:
  "initiate_call (stub_env 1 True) ann_form init_server =
     (\<lparr>status = 200,
       json = [(''message'', JStr ''Call initiated successfully.''),
               (''callId'', JStr ''call_1'')]\<rparr>, ann_registered)"
  by (simp add: initiate_call_def ann_form_def obj_get_def stub_env_def get_prop_def
      init_server_def ann_registered_def ann_info_def Let_def template_def)

lemma emailService_has_no_primary: "\<not> mailerSend (emailService email_service_name gmail_password)"
  by (simp add: emailService_def new_EmailService_def)

lemma ann_registry:
  "callMap ann_registered ''call_1'' = Some ann_info"
  "pending ann_registered = []"
  "ann_registered\<lparr>callMap := (callMap ann_registered)(''call_1'' := None)\<rparr> =
     \<lparr>callMap = Map.empty, pending = []\<rparr>"
  by (simp_all add: ann_registered_def)

lemma ann_info_fields:
  "info_email ann_info = JStr ''ann@x.com''" "info_name ann_info = JStr ''Ann''"
  by (simp_all add: ann_info_def)

lemma call_ended_body_logged:
  assumes "converts st"
  shows "template [obj_get (call_ended_body st dr) ''event'',
     prop_of (obj_get (call_ended_body st dr) ''call'') ''call_id'',
     prop_of (obj_get (call_ended_body st dr) ''call'') ''call_status'',
     prop_of (obj_get (call_ended_body st dr) ''call'') ''direction''] = Inr ()"
  using assms by (simp add: call_ended_call_fields call_ended_body_fields(1) template_returns)

lemma call_ended_body_key:
  "to_string (prop_of (obj_get (call_ended_body st dr) ''call'') ''call_id'') = Inr ''call_1''"
  by (simp add: call_ended_call_fields)

section \<open>Facts about the email service\<close>

lemma embedded_name_and_id:
  assumes "template (embedded_values recipientName transcript callId callData) = Inr ()"
  shows "template [recipientName, callId] = Inr ()"
  using assms by (simp add: template_returns embedded_values_def)

text \<open>
  The sibling path: with both transports set up, a primary that rejects the message is
  followed by one try through Gmail, and nothing else when Gmail accepts.
\<close>

lemma email_service_retries_through_backup:
  assumes "mailerSend svc" and "gmailTransporter svc"
    and "get_prop callData ''call_id'' = Inr callId"
    and "template (embedded_values recipientName transcript callId callData) = Inr ()"
    and "m = TranscriptMail recipientEmail recipientName (transcript_text transcript)
               callId callData"
    and "\<not> sendMail e MailerSend m" and "sendMail e Gmail m"
  shows "sendTranscriptEmail svc e recipientEmail recipientName transcript callData =
           (Inr (), [Send MailerSend m, Send Gmail m])"
  using assms by (simp add: sendTranscriptEmail_def Let_def)

section \<open>The retrieval loop when the transcript never arrives\<close>

text \<open>
  C1. For a ceiling of at least one attempt (and at most \<open>2 ^ 53\<close>, up to which the source's
  counter counts), if every fetch is fulfilled with a response that has no transcript, the
  chain makes exactly \<open>maxRetries\<close> fetches: each fetch but the last is followed by
  \<^verbatim>\<open>setTimeout(attemptToGetTranscript, retryDelay)\<close>, the last one by exactly one failure
  notification, and nothing comes after it.
\<close>

theorem empty_transcripts_exhaust_retries:
  assumes "1 \<le> maxRetries cfg" and "maxRetries cfg \<le> 2 ^ 53"
    and "\<And>n. no_transcript (retrieve e n)"
  shows "attemptToGetTranscript cfg e callId email name 0 =
           waiting_rounds cfg callId (nat (maxRetries cfg) - 1) @
           [Retrieve callId, Send (error_channel cfg) (ErrorMail email name callId)]
         \<and> int (fetch_count (attemptToGetTranscript cfg e callId email name 0)) =
             maxRetries cfg
         \<and> failure_notifications (attemptToGetTranscript cfg e callId email name 0) = 1"
proof -
  let ?N = "nat (maxRetries cfg)"
  have wait: "attemptToGetTranscript cfg e callId email name 0 =
      waiting_rounds cfg callId (?N - 1) @
      attemptToGetTranscript cfg e callId email name (?N - 1)"
    using attempt_waits [of 0 "?N - 1" e cfg callId email name] assms by auto
  have last: "attemptToGetTranscript cfg e callId email name (?N - 1) =
      Retrieve callId # sendErrorEmail cfg email name callId"
    by (rule attempt_exhausted) (use assms in auto)
  have tr: "attemptToGetTranscript cfg e callId email name 0 =
      waiting_rounds cfg callId (?N - 1) @
      [Retrieve callId, Send (error_channel cfg) (ErrorMail email name callId)]"
    by (simp only: wait last sendErrorEmail_def)
  have tail_fetch: "fetch_count
      [Retrieve callId, Send (error_channel cfg) (ErrorMail email name callId)] = 1"
    by (simp add: fetch_count_def)
  have tail_fail: "failure_notifications
      [Retrieve callId, Send (error_channel cfg) (ErrorMail email name callId)] = 1"
    by (simp add: failure_notifications_def)
  have fc: "int (fetch_count (attemptToGetTranscript cfg e callId email name 0)) =
      maxRetries cfg"
    using assms(1) by (simp add: tr fetch_count_waiting tail_fetch)
  have fn: "failure_notifications (attemptToGetTranscript cfg e callId email name 0) = 1"
    by (simp only: tr failure_notifications_waiting tail_fail)
  show ?thesis using tr fc fn by blast
qed

text \<open>
  The default configuration, which is also the loop of \<^verbatim>\<open>express.js\<close>: five fetches with a
  15000 ms timer between them, then the notification.
\<close>

theorem empty_transcripts_exhaust_retries_witness:
  "load_config NaN NaN None = Some express_js_config
   \<and> attemptToGetTranscript express_js_config (stub_env 0 True) (JStr ''call_1'')
     (JStr ''ann@x.com'') (JStr ''Ann'') 0 =
   [Retrieve (JStr ''call_1''), SetTimeout 15000, Retrieve (JStr ''call_1''), SetTimeout 15000,
    Retrieve (JStr ''call_1''), SetTimeout 15000, Retrieve (JStr ''call_1''), SetTimeout 15000,
    Retrieve (JStr ''call_1''),
    Send Gmail (ErrorMail (JStr ''ann@x.com'') (JStr ''Ann'') (JStr ''call_1''))]
   \<and> fetch_count (attemptToGetTranscript express_js_config (stub_env 0 True) (JStr ''call_1'')
       (JStr ''ann@x.com'') (JStr ''Ann'') 0) = 5
   \<and> failure_notifications (attemptToGetTranscript express_js_config (stub_env 0 True)
       (JStr ''call_1'') (JStr ''ann@x.com'') (JStr ''Ann'') 0) = 1"
proof -
  have budget: "1 \<le> maxRetries express_js_config" "maxRetries express_js_config \<le> 2 ^ 53"
    by (simp_all add: express_js_fields)
  have rounds: "waiting_rounds express_js_config (JStr ''call_1'')
      (nat (maxRetries express_js_config) - 1) =
    [Retrieve (JStr ''call_1''), SetTimeout 15000, Retrieve (JStr ''call_1''), SetTimeout 15000,
     Retrieve (JStr ''call_1''), SetTimeout 15000, Retrieve (JStr ''call_1''), SetTimeout 15000]"
    by (simp add: waiting_rounds_def express_js_config_def eval_nat_numeral)
  note run = empty_transcripts_exhaust_retries [of express_js_config "stub_env 0 True"
        "JStr ''call_1''" "JStr ''ann@x.com''" "JStr ''Ann''", OF budget stub_never_ready]
  have tr: "attemptToGetTranscript express_js_config (stub_env 0 True) (JStr ''call_1'')
     (JStr ''ann@x.com'') (JStr ''Ann'') 0 =
   [Retrieve (JStr ''call_1''), SetTimeout 15000, Retrieve (JStr ''call_1''), SetTimeout 15000,
    Retrieve (JStr ''call_1''), SetTimeout 15000, Retrieve (JStr ''call_1''), SetTimeout 15000,
    Retrieve (JStr ''call_1''),
    Send Gmail (ErrorMail (JStr ''ann@x.com'') (JStr ''Ann'') (JStr ''call_1''))]"
    using run [THEN conjunct1] unfolding rounds by (simp add: express_js_fields)
  have fc: "fetch_count (attemptToGetTranscript express_js_config (stub_env 0 True)
       (JStr ''call_1'') (JStr ''ann@x.com'') (JStr ''Ann'') 0) = 5"
    using run [THEN conjunct2, THEN conjunct1] by (simp add: express_js_fields)
  show ?thesis
    using default_config tr fc run [THEN conjunct2, THEN conjunct2] by blast
qed

section \<open>The retrieval loop when the transcript arrives\<close>




section \<open>A fetch that throws\<close>

text \<open>
  C9. If the fetch of an attempt is rejected, whatever the value of \<^verbatim>\<open>retryCount\<close> and of
  the retry budget, the rest of the chain is that fetch and one failure notification: no
  timer is set and no further fetch is made.
\<close>

theorem fetch_exception_ends_chain:
  assumes "retrieve e retryCount = Rejected"
  shows "attemptToGetTranscript cfg e callId email name retryCount =
           [Retrieve callId, Send (error_channel cfg) (ErrorMail email name callId)]
         \<and> fetch_count (attemptToGetTranscript cfg e callId email name retryCount) = 1
         \<and> failure_notifications (attemptToGetTranscript cfg e callId email name retryCount) = 1"
  using assms
  by (simp add: attempt_rejected sendErrorEmail_def fetch_count_def failure_notifications_def)

text \<open>A provider that rejects the first fetch, under the budget of five attempts.\<close>

theorem fetch_exception_ends_chain_witness:
  "retrieve broken_env 0 = Rejected
   \<and> attemptToGetTranscript express_js_config broken_env (JStr ''call_1'')
       (JStr ''ann@x.com'') (JStr ''Ann'') 0 =
     [Retrieve (JStr ''call_1''),
      Send Gmail (ErrorMail (JStr ''ann@x.com'') (JStr ''Ann'') (JStr ''call_1''))]"
proof -
  have r: "retrieve broken_env 0 = Rejected"
    by (simp add: broken_env_def)
  show ?thesis
    using r fetch_exception_ends_chain [OF r, of express_js_config "JStr ''call_1''"
        "JStr ''ann@x.com''" "JStr ''Ann''"]
    by (simp add: express_js_fields)
qed

section \<open>The webhook endpoint\<close>

text \<open>
  C3 (as amended). Take a body that passes the payload check and whose first log line,
  the one before the \<^verbatim>\<open>try\<close>, returns. The handler answers it, and the answer is 200 with
  \<^verbatim>\<open>success: true\<close> unless a statement inside the \<^verbatim>\<open>try\<close> throws, which the \<^verbatim>\<open>catch\<close> answers
  with 500. The statements that can throw are the log lines of the \<^verbatim>\<open>call_ended\<close> case: the
  one with the disconnection reason, and for a completed call with a registered record
  the one with the record's email and name. The handler is given no provider and no
  transport, so the answer is the same whatever the started chain goes on to do.
\<close>

theorem webhook_acknowledges_valid_payloads:
  assumes "\<not> invalid_payload body"
    and "event = obj_get body ''event''" and "call = obj_get body ''call''"
    and "template [event, prop_of call ''call_id'', prop_of call ''call_status'',
           prop_of call ''direction''] = Inr ()"
    and "to_string (prop_of call ''call_id'') = Inr key"
    and "throws =
          (event = JStr ''call_ended'' \<and>
           (\<not> converts (prop_of call ''disconnection_reason'') \<or>
            (prop_of call ''call_status'' = JStr ''ended'' \<and>
             truthy (prop_of call ''end_timestamp'') \<and>
             (\<exists>userInfo. callMap s key = Some userInfo \<and> truthy (info_email userInfo) \<and>
                \<not> (converts (info_email userInfo) \<and> converts (info_name userInfo))))))"
  shows "\<exists>r s'. webhook body s = Inr (r, s')
           \<and> status r = (if throws then 500 else 200)
           \<and> (obj_get (json r) ''success'' = JBool True) = (\<not> throws)"
proof -
  have conv: "converts event" "converts (prop_of call ''call_id'')"
    "converts (prop_of call ''call_status'')"
    using assms(4) by (simp_all add: template_returns)
  obtain event_name where en: "to_string event = Inr event_name"
    using conv(1) by (auto simp add: converts_iff)
  note ans = webhook_answer [OF assms(1) assms(2) assms(3) assms(4) en, of s]
  show ?thesis
  proof (cases "event = JStr ''call_ended''")
    case False
    have "webhook_switch event (prop_of call ''call_id'') (prop_of call ''call_status'')
             (prop_of call ''disconnection_reason'') (prop_of call ''end_timestamp'') s = Inr s"
      using False conv by (intro switch_other_event)
    then show ?thesis using ans False assms(6) by (simp add: obj_get_def)
  next
    case True
    note sw = switch_call_ended [OF assms(5), of "prop_of call ''call_status''"
        "prop_of call ''disconnection_reason''" "prop_of call ''end_timestamp''" s]
    show ?thesis
      using ans True assms(6) conv(3)
      by (auto simp add: sw obj_get_def split: option.splits)
  qed
qed

text \<open>A well-formed \<^verbatim>\<open>call_ended\<close> body for Ann's call is acknowledged.\<close>

theorem webhook_acknowledges_valid_payloads_witness:
  "\<not> invalid_payload (call_ended_body (JStr ''ended'') (JStr ''user_hangup''))
   \<and> (\<exists>r s'. webhook (call_ended_body (JStr ''ended'') (JStr ''user_hangup'')) ann_registered
          = Inr (r, s')
        \<and> status r = 200 \<and> obj_get (json r) ''success'' = JBool True)"
proof -
  let ?body = "call_ended_body (JStr ''ended'') (JStr ''user_hangup'')"
  have quiet: "\<not> (obj_get ?body ''event'' = JStr ''call_ended'' \<and>
           (\<not> converts (prop_of (obj_get ?body ''call'') ''disconnection_reason'') \<or>
            (prop_of (obj_get ?body ''call'') ''call_status'' = JStr ''ended'' \<and>
             truthy (prop_of (obj_get ?body ''call'') ''end_timestamp'') \<and>
             (\<exists>userInfo. callMap ann_registered ''call_1'' = Some userInfo \<and>
                truthy (info_email userInfo) \<and>
                \<not> (converts (info_email userInfo) \<and> converts (info_name userInfo))))))"
    by (auto simp add: call_ended_call_fields ann_registry ann_info_fields)
  note run = webhook_acknowledges_valid_payloads [OF call_ended_body_valid refl refl
      call_ended_body_logged call_ended_body_key refl,
      of "JStr ''ended''" "JStr ''user_hangup''" ann_registered]
  have "\<exists>r s'. webhook ?body ann_registered = Inr (r, s')
        \<and> status r = 200 \<and> obj_get (json r) ''success'' = JBool True"
    using run quiet by auto
  then show ?thesis using call_ended_body_valid by blast
qed

text \<open>
  C3 as stated fails: a body that passes the payload check is answered 500 when its
  disconnection reason is an object whose string conversion throws. The log line of the
  \<^verbatim>\<open>call_ended\<close> case throws inside the \<^verbatim>\<open>try\<close>, and the \<^verbatim>\<open>catch\<close> answers.
\<close>

theorem caught_exception_counterexample:
  "\<not> invalid_payload (call_ended_body (JStr ''ended'') odd_object)
   \<and> truthy (obj_get (call_ended_body (JStr ''ended'') odd_object) ''event'')
   \<and> webhook (call_ended_body (JStr ''ended'') odd_object) ann_registered =
       Inr (\<lparr>status = 500,
             json = [(''error'', JStr ''Internal server error''),
                     (''call_id'', JStr ''call_1'')]\<rparr>, ann_registered)"
proof -
  let ?body = "call_ended_body (JStr ''ended'') odd_object"
  have ans: "webhook ?body ann_registered =
       Inr (\<lparr>status = 500,
             json = [(''error'', JStr ''Internal server error''),
                     (''call_id'', JStr ''call_1'')]\<rparr>, ann_registered)"
    using webhook_answer [OF call_ended_body_valid refl refl call_ended_body_logged,
        of "JStr ''ended''" odd_object "''call_ended''" ann_registered]
    by (simp add: call_ended_call_fields call_ended_body_fields(1)
        switch_call_ended [OF call_ended_body_key [of "JStr ''ended''" odd_object,
          unfolded call_ended_call_fields]] odd_object_throws)
  show ?thesis
    using ans call_ended_body_valid by (simp add: call_ended_body_fields(1))
qed

text \<open>
  C8. A body that fails the payload check is answered with status 400 and the server's
  state, the registry included, is returned as it was.
\<close>

theorem malformed_payload_leaves_registry:
  assumes "invalid_payload body"
  shows "webhook body s =
           Inr (\<lparr>status = 400, json = [(''error'', JStr ''Invalid payload structure'')]\<rparr>, s)"
  using assms by (simp add: webhook_def)

text \<open>The empty body \<^verbatim>\<open>{}\<close> against a registry that holds one call.\<close>

theorem malformed_payload_leaves_registry_witness:
  "invalid_payload []
   \<and> webhook [] ann_registered =
       Inr (\<lparr>status = 400, json = [(''error'', JStr ''Invalid payload structure'')]\<rparr>,
            ann_registered)"
proof -
  have bad: "invalid_payload []"
    by (simp add: invalid_payload_def obj_get_def)
  show ?thesis using bad malformed_payload_leaves_registry [OF bad, of ann_registered] by simp
qed

text \<open>
  C5 (as amended). Take a \<^verbatim>\<open>call_ended\<close> event whose status is not \<^verbatim>\<open>"ended"\<close> or whose
  \<^verbatim>\<open>end_timestamp\<close> is falsy, and whose call identifier, status and direction the handler
  can log. No chain is started. When the disconnection reason converts to a string, the
  answer is 200 and the registry afterwards is the registry before without the entry of
  that call identifier, unchanged if there was no such entry. When it does not, the log
  line throws inside the \<^verbatim>\<open>try\<close>, the \<^verbatim>\<open>catch\<close> answers 500, and the state is as it was.
\<close>

theorem unfinished_call_drops_entry:
  assumes "\<not> invalid_payload body"
    and "obj_get body ''event'' = JStr ''call_ended''" and "call = obj_get body ''call''"
    and "\<not> (prop_of call ''call_status'' = JStr ''ended''
            \<and> truthy (prop_of call ''end_timestamp''))"
    and "to_string (prop_of call ''call_id'') = Inr key"
    and "converts (prop_of call ''call_status'')"
    and "converts (prop_of call ''direction'')"
  shows "webhook body s =
           (if converts (prop_of call ''disconnection_reason'') then
              Inr (\<lparr>status = 200,
                    json = [(''success'', JBool True),
                            (''message'', JStr ''Webhook processed for event: call_ended'')]\<rparr>,
                   s\<lparr>callMap := (callMap s)(key := None)\<rparr>)
            else
              Inr (\<lparr>status = 500,
                    json = [(''error'', JStr ''Internal server error''),
                            (''call_id'', prop_of call ''call_id'')]\<rparr>, s))
    \<and> pending (s\<lparr>callMap := (callMap s)(key := None)\<rparr>) = pending s
    \<and> (callMap s key = None \<longrightarrow> s\<lparr>callMap := (callMap s)(key := None)\<rparr> = s)"
proof -
  have logged: "template [JStr ''call_ended'', prop_of call ''call_id'',
      prop_of call ''call_status'', prop_of call ''direction''] = Inr ()"
    using assms(5,6,7) by (simp add: template_returns to_string_converts)
  have ans: "webhook body s =
           (if converts (prop_of call ''disconnection_reason'') then
              Inr (\<lparr>status = 200,
                    json = [(''success'', JBool True),
                            (''message'', JStr ''Webhook processed for event: call_ended'')]\<rparr>,
                   s\<lparr>callMap := (callMap s)(key := None)\<rparr>)
            else
              Inr (\<lparr>status = 500,
                    json = [(''error'', JStr ''Internal server error''),
                            (''call_id'', prop_of call ''call_id'')]\<rparr>, s))"
    using webhook_answer [OF assms(1) assms(2) [symmetric] assms(3) logged, of "''call_ended''" s]
      assms(4,6)
    by (auto simp add: switch_call_ended [OF assms(5)])
  have same: "callMap s key = None \<longrightarrow> s\<lparr>callMap := (callMap s)(key := None)\<rparr> = s"
    by (cases s) (simp add: fun_upd_idem)
  show ?thesis using ans same by simp
qed

text \<open>A call that ended with status \<^verbatim>\<open>"error"\<close>: its entry is dropped, nothing is started.\<close>

theorem unfinished_call_drops_entry_witness:
  "callMap ann_registered ''call_1'' = Some ann_info
   \<and> webhook (call_ended_body (JStr ''error'') (JStr ''dial_failed'')) ann_registered =
       Inr (\<lparr>status = 200,
             json = [(''success'', JBool True),
                     (''message'', JStr ''Webhook processed for event: call_ended'')]\<rparr>,
            \<lparr>callMap = Map.empty, pending = []\<rparr>)"
proof -
  let ?body = "call_ended_body (JStr ''error'') (JStr ''dial_failed'')"
  have pre: "\<not> (prop_of (obj_get ?body ''call'') ''call_status'' = JStr ''ended''
      \<and> truthy (prop_of (obj_get ?body ''call'') ''end_timestamp''))"
    by (simp add: call_ended_call_fields)
  have cv: "converts (prop_of (obj_get ?body ''call'') ''call_status'')"
    "converts (prop_of (obj_get ?body ''call'') ''direction'')"
    by (simp_all add: call_ended_call_fields)
  note run = unfinished_call_drops_entry [OF call_ended_body_valid call_ended_body_fields(1)
      refl pre call_ended_body_key cv, of ann_registered]
  show ?thesis
    using run [THEN conjunct1] by (simp add: ann_registry call_ended_call_fields)
qed

text \<open>
  C5 as stated fails: the same event with a disconnection reason whose string conversion
  throws is answered 500, and the entry of the call stays in the registry.
\<close>

theorem unlogged_reason_keeps_entry_counterexample:
  "obj_get (call_ended_body (JStr ''error'') odd_object) ''event'' = JStr ''call_ended''
   \<and> prop_of (obj_get (call_ended_body (JStr ''error'') odd_object) ''call'') ''call_status''
       \<noteq> JStr ''ended''
   \<and> callMap ann_registered ''call_1'' = Some ann_info
   \<and> webhook (call_ended_body (JStr ''error'') odd_object) ann_registered =
       Inr (\<lparr>status = 500,
             json = [(''error'', JStr ''Internal server error''),
                     (''call_id'', JStr ''call_1'')]\<rparr>, ann_registered)"
proof -
  let ?body = "call_ended_body (JStr ''error'') odd_object"
  have ans: "webhook ?body ann_registered =
       Inr (\<lparr>status = 500,
             json = [(''error'', JStr ''Internal server error''),
                     (''call_id'', JStr ''call_1'')]\<rparr>, ann_registered)"
    using webhook_answer [OF call_ended_body_valid refl refl call_ended_body_logged,
        of "JStr ''error''" odd_object "''call_ended''" ann_registered]
    by (simp add: call_ended_call_fields call_ended_body_fields(1)
        switch_call_ended [OF call_ended_body_key [of "JStr ''error''" odd_object,
          unfolded call_ended_call_fields]] odd_object_throws)
  show ?thesis
    using ans by (simp add: call_ended_call_fields call_ended_body_fields(1) ann_registry)
qed

text \<open>
  C4 (what the code does). On a \<^verbatim>\<open>call_ended\<close> event with status \<^verbatim>\<open>"ended"\<close> and a truthy
  \<^verbatim>\<open>end_timestamp\<close>, for a registered record with an email, when the log lines return, the
  handler starts exactly one chain with the record's email and name, and by the time it
  answers the entry is already removed: the chain is still only started, none of its
  fetches has settled. The removal does not wait for the processing to complete,
  although the handler's comment says it cleans up after the email was sent.
\<close>

theorem completed_call_starts_chain:
  assumes "\<not> invalid_payload body"
    and "obj_get body ''event'' = JStr ''call_ended''" and "call = obj_get body ''call''"
    and "prop_of call ''call_status'' = JStr ''ended''"
    and "truthy (prop_of call ''end_timestamp'')"
    and "to_string (prop_of call ''call_id'') = Inr key"
    and "callMap s key = Some userInfo"
    and "truthy (info_email userInfo)"
    and "converts (prop_of call ''direction'')"
    and "converts (prop_of call ''disconnection_reason'')"
    and "converts (info_email userInfo)" and "converts (info_name userInfo)"
  shows "webhook body s =
     Inr (\<lparr>status = 200,
           json = [(''success'', JBool True),
                   (''message'', JStr ''Webhook processed for event: call_ended'')]\<rparr>,
          \<lparr>callMap = (callMap s)(key := None),
           pending = pending s @
             [(prop_of call ''call_id'', info_email userInfo,
               if info_name userInfo = JUndefined then JStr ''User''
               else info_name userInfo)]\<rparr>)"
proof -
  have logged: "template [JStr ''call_ended'', prop_of call ''call_id'',
      prop_of call ''call_status'', prop_of call ''direction''] = Inr ()"
    using assms(4,6,9) by (simp add: template_returns to_string_converts)
  show ?thesis
    using webhook_answer [OF assms(1) assms(2) [symmetric] assms(3) logged, of "''call_ended''" s]
      assms(4,5,7,8,10,11,12)
    by (simp add: switch_call_ended [OF assms(6)])
qed

text \<open>
  Ann's call: when the handler answers, her entry is gone and the chain is pending; the
  fetch and the send of the transcript come when the chain is run.
\<close>

theorem completed_call_starts_chain_witness:
  "webhook (call_ended_body (JStr ''ended'') (JStr ''user_hangup'')) ann_registered =
     Inr (\<lparr>status = 200,
           json = [(''success'', JBool True),
                   (''message'', JStr ''Webhook processed for event: call_ended'')]\<rparr>,
          \<lparr>callMap = Map.empty,
           pending = [(JStr ''call_1'', JStr ''ann@x.com'', JStr ''Ann'')]\<rparr>)
   \<and> run_chain express_js_config (stub_env 1 True)
       (JStr ''call_1'', JStr ''ann@x.com'', JStr ''Ann'') =
     [Retrieve (JStr ''call_1''),
      Send Gmail (TranscriptMail (JStr ''ann@x.com'') (JStr ''Ann'') ''Agent: hello''
        (JStr ''call_1'') ready_response)]"
proof -
  let ?body = "call_ended_body (JStr ''ended'') (JStr ''user_hangup'')"
  have st: "prop_of (obj_get ?body ''call'') ''call_status'' = JStr ''ended''"
    and ts: "truthy (prop_of (obj_get ?body ''call'') ''end_timestamp'')"
    and cv: "converts (prop_of (obj_get ?body ''call'') ''direction'')"
      "converts (prop_of (obj_get ?body ''call'') ''disconnection_reason'')"
    by (simp_all add: call_ended_call_fields)
  have rec: "truthy (info_email ann_info)" "converts (info_email ann_info)"
    "converts (info_name ann_info)"
    by (simp_all add: ann_info_fields)
  have hook: "webhook ?body ann_registered =
     Inr (\<lparr>status = 200,
           json = [(''success'', JBool True),
                   (''message'', JStr ''Webhook processed for event: call_ended'')]\<rparr>,
          \<lparr>callMap = Map.empty,
           pending = [(JStr ''call_1'', JStr ''ann@x.com'', JStr ''Ann'')]\<rparr>)"
    using completed_call_starts_chain [OF call_ended_body_valid call_ended_body_fields(1) refl
        st ts call_ended_body_key ann_registry(1) rec(1) cv rec(2) rec(3)]
    by (simp add: call_ended_call_fields ann_registered_def ann_info_fields)
  have r: "retrieve (stub_env 1 True) 0 = Fulfilled ready_response"
    by (simp add: stub_retrieve)
  have chain: "run_chain express_js_config (stub_env 1 True)
       (JStr ''call_1'', JStr ''ann@x.com'', JStr ''Ann'') =
     [Retrieve (JStr ''call_1''),
      Send Gmail (TranscriptMail (JStr ''ann@x.com'') (JStr ''Ann'') ''Agent: hello''
        (JStr ''call_1'') ready_response)]"
    unfolding run_chain.simps
    by (subst attempt_ready [OF r ready_transcript])
       (simp_all add: deliver_def express_js_fields stub_sendMail Let_def)
  show ?thesis using hook chain by blast
qed

text \<open>
  C10. In every reachable state, each record of the registry has a truthy email; so on
  the successful \<^verbatim>\<open>call_ended\<close> path a record that is found passes the guard
  \<^verbatim>\<open>userInfo && userInfo.email\<close>, and the branch that skips a found record is never taken:
  the chain is started and the entry removed when the log lines return, and the \<^verbatim>\<open>try\<close>
  is left with a TypeError when one of them throws.
\<close>

theorem registered_records_have_email:
  assumes "reachable s" and "to_string call_id = Inr key"
    and "callMap s key = Some userInfo"
  shows "truthy (info_email userInfo)
    \<and> (truthy end_timestamp \<longrightarrow>
        webhook_switch (JStr ''call_ended'') call_id (JStr ''ended'') disconnection_reason
          end_timestamp s =
          (if converts disconnection_reason \<and> converts (info_email userInfo)
              \<and> converts (info_name userInfo)
           then Inr \<lparr>callMap = (callMap s)(key := None),
                     pending = pending s @
                       [(call_id, info_email userInfo,
                         if info_name userInfo = JUndefined then JStr ''User''
                         else info_name userInfo)]\<rparr>
           else Inl TypeError))"
proof -
  have em: "truthy (info_email userInfo)"
    using reachable_emails [OF assms(1) assms(3)] .
  show ?thesis
    using em assms(3) by (simp add: switch_call_ended [OF assms(2)])
qed

text \<open>The state after Ann's initiation request is reachable and holds her record.\<close>

theorem registered_records_have_email_witness:
  "reachable ann_registered
   \<and> callMap ann_registered ''call_1'' = Some ann_info
   \<and> truthy (info_email ann_info)
   \<and> webhook_switch (JStr ''call_ended'') (JStr ''call_1'') (JStr ''ended'')
       (JStr ''user_hangup'') (JNum 1) ann_registered =
       Inr \<lparr>callMap = Map.empty,
            pending = [(JStr ''call_1'', JStr ''ann@x.com'', JStr ''Ann'')]\<rparr>"
proof -
  have reach: "reachable ann_registered"
    using reachable.initiated [OF reachable.start, of "stub_env 1 True" ann_form]
    unfolding ann_initiated by simp
  have key: "to_string (JStr ''call_1'') = Inr ''call_1''" by simp
  note inv = registered_records_have_email [OF reach key ann_registry(1),
      of "JNum 1" "JStr ''user_hangup''"]
  show ?thesis
    using reach inv by (simp add: ann_registered_def ann_info_fields)
qed

section \<open>Failing transports\<close>

text \<open>
  C7 (what the code does). In the server's send branch a send that throws is not retried
  through another transport: the chain is the fetch, the one send through the transport
  of the configured service, and the failure notification through that same transport;
  no other transport is tried, whatever it would answer. The email service retries
  through Gmail (lemma \<open>email_service_retries_through_backup\<close>), but its exported instance
  never has a primary (lemma \<open>emailService_has_no_primary\<close>).
\<close>

theorem failed_send_is_not_retried:
  assumes "service cfg \<noteq> ''console''"
    and "retrieve e retryCount = Fulfilled callResponse"
    and "get_prop callResponse ''transcript'' = Inr transcript" and "truthy transcript"
    and "m = TranscriptMail email name (formatTranscript e transcript) callId callResponse"
    and "\<not> sendMail e (error_channel cfg) m"
  shows "attemptToGetTranscript cfg e callId email name retryCount =
           [Retrieve callId, Send (error_channel cfg) m,
            Send (error_channel cfg) (ErrorMail email name callId)]
    \<and> (\<forall>ch. ch \<noteq> error_channel cfg \<longrightarrow>
          filter (is_send_on ch)
            (attemptToGetTranscript cfg e callId email name retryCount) = [])"
proof -
  have tr: "attemptToGetTranscript cfg e callId email name retryCount =
           [Retrieve callId, Send (error_channel cfg) m,
            Send (error_channel cfg) (ErrorMail email name callId)]"
    using assms
    by (simp add: attempt_ready [OF assms(2) assms(3) assms(4)] deliver_def Let_def
        sendErrorEmail_def error_channel_def del: formatTranscript.simps)
  show ?thesis unfolding tr by auto
qed

text \<open>
  Under \<^verbatim>\<open>EMAIL_SERVICE=sendgrid\<close>, SendGrid rejects and Gmail would accept: two sends
  through SendGrid, none through Gmail.
\<close>

theorem failed_send_is_not_retried_witness:
  "load_config NaN NaN (Some ''sendgrid'') = Some sendgrid_config
   \<and> sendMail gmail_only_env Gmail
     (TranscriptMail (JStr ''ann@x.com'') (JStr ''Ann'') ''Agent: hello'' (JStr ''call_1'')
        ready_response)
   \<and> attemptToGetTranscript sendgrid_config gmail_only_env (JStr ''call_1'')
       (JStr ''ann@x.com'') (JStr ''Ann'') 0 =
     [Retrieve (JStr ''call_1''),
      Send SendGrid (TranscriptMail (JStr ''ann@x.com'') (JStr ''Ann'') ''Agent: hello''
        (JStr ''call_1'') ready_response),
      Send SendGrid (ErrorMail (JStr ''ann@x.com'') (JStr ''Ann'') (JStr ''call_1''))]
   \<and> filter (is_send_on Gmail)
       (attemptToGetTranscript sendgrid_config gmail_only_env (JStr ''call_1'')
          (JStr ''ann@x.com'') (JStr ''Ann'') 0) = []"
proof -
  let ?m = "TranscriptMail (JStr ''ann@x.com'') (JStr ''Ann'') ''Agent: hello''
      (JStr ''call_1'') ready_response"
  have sv: "service sendgrid_config \<noteq> ''console''"
    by (simp add: sendgrid_fields)
  have m: "?m = TranscriptMail (JStr ''ann@x.com'') (JStr ''Ann'')
      (formatTranscript gmail_only_env (JStr ''Agent: hello'')) (JStr ''call_1'') ready_response"
    by simp
  have rejected: "\<not> sendMail gmail_only_env (error_channel sendgrid_config) ?m"
    by (simp add: gmail_only_sendMail sendgrid_fields)
  have t: "truthy (JStr ''Agent: hello'')" by simp
  note run = failed_send_is_not_retried [OF sv gmail_only_retrieve ready_transcript t m rejected]
  have other: "Gmail \<noteq> error_channel sendgrid_config"
    by (simp add: sendgrid_fields)
  show ?thesis
    using run [THEN conjunct1] run [THEN conjunct2, rule_format, OF other]
    by (simp add: gmail_only_sendMail sendgrid_fields sendgrid_loaded)
qed

text \<open>
  C6 (as amended). When at least one transport is set up and every transport rejects the
  transcript message, the email service sends the failure notification exactly once,
  through the primary if there is one and through Gmail otherwise, and then rethrows
  the first error to its caller; only a failure of the notification itself is
  swallowed.
\<close>

theorem every_transport_fails:
  assumes "mailerSend svc \<or> gmailTransporter svc"
    and "get_prop callData ''call_id'' = Inr callId"
    and "template (embedded_values recipientName transcript callId callData) = Inr ()"
    and "m = TranscriptMail recipientEmail recipientName (transcript_text transcript)
               callId callData"
    and "\<not> sendMail e MailerSend m" and "\<not> sendMail e Gmail m"
  shows "sendTranscriptEmail svc e recipientEmail recipientName transcript callData =
           (Inl (SendFailed (if mailerSend svc then ''MailerSend'' else ''Gmail'')),
            (if mailerSend svc then
               Send MailerSend m # (if gmailTransporter svc then [Send Gmail m] else [])
             else [Send Gmail m])
            @ [Send (if mailerSend svc then MailerSend else Gmail)
                 (ErrorMail recipientEmail recipientName callId)])
    \<and> failure_notifications
         (snd (sendTranscriptEmail svc e recipientEmail recipientName transcript callData)) = 1"
  using assms embedded_name_and_id [OF assms(3)]
  by (auto simp add: sendTranscriptEmail_def sendErrorNotification_def
      failure_notifications_def Let_def)

text \<open>
  The exported instance with a Gmail password, every send rejected: the message, the
  notification, and the error comes back.
\<close>

theorem every_transport_fails_witness:
  "emailService ''gmail'' (JStr ''app-password'') =
     \<lparr>mailerSend = False, gmailTransporter = True\<rparr>
   \<and> sendTranscriptEmail (emailService ''gmail'' (JStr ''app-password'')) (stub_env 1 False)
       (JStr ''ann@x.com'') (JStr ''Ann'') (JStr ''Agent: hello'') ready_response =
     (Inl (SendFailed ''Gmail''),
      [Send Gmail (TranscriptMail (JStr ''ann@x.com'') (JStr ''Ann'') ''Agent: hello''
          (JStr ''call_1'') ready_response),
       Send Gmail (ErrorMail (JStr ''ann@x.com'') (JStr ''Ann'') (JStr ''call_1''))])"
proof -
  let ?svc = "emailService ''gmail'' (JStr ''app-password'')"
  let ?m = "TranscriptMail (JStr ''ann@x.com'') (JStr ''Ann'') ''Agent: hello''
          (JStr ''call_1'') ready_response"
  have svc: "?svc = \<lparr>mailerSend = False, gmailTransporter = True\<rparr>"
    by (simp add: emailService_def new_EmailService_def)
  have cfgd: "mailerSend ?svc \<or> gmailTransporter ?svc"
    by (simp add: svc)
  have m: "?m = TranscriptMail (JStr ''ann@x.com'') (JStr ''Ann'')
      (transcript_text (JStr ''Agent: hello'')) (JStr ''call_1'') ready_response"
    by (simp add: transcript_text_def)
  have no: "\<not> sendMail (stub_env 1 False) ch mm" for ch mm
    by (simp add: stub_sendMail)
  note run = every_transport_fails [OF cfgd ready_call_id ready_embedded m no no]
  show ?thesis
    using svc run [THEN conjunct1] by (simp add: emailService_has_no_primary)
qed

text \<open>
  C6 as stated fails: with every transport rejecting, the caller of
  \<^verbatim>\<open>sendTranscriptEmail\<close> gets the error (\<^verbatim>\<open>throw error\<close> after the notification).
\<close>

theorem delivery_failure_is_rethrown_counterexample:
  "\<not> sendMail (stub_env 1 False) MailerSend
       (TranscriptMail (JStr ''ann@x.com'') (JStr ''Ann'') ''Agent: hello''
          (JStr ''call_1'') ready_response)
   \<and> \<not> sendMail (stub_env 1 False) Gmail
       (TranscriptMail (JStr ''ann@x.com'') (JStr ''Ann'') ''Agent: hello''
          (JStr ''call_1'') ready_response)
   \<and> fst (sendTranscriptEmail (emailService ''gmail'' (JStr ''app-password''))
       (stub_env 1 False) (JStr ''ann@x.com'') (JStr ''Ann'') (JStr ''Agent: hello'')
       ready_response) = Inl (SendFailed ''Gmail'')"
  by (simp add: sendTranscriptEmail_def emailService_def new_EmailService_def stub_sendMail
      ready_call_id ready_embedded Let_def)

end
